theory Spec2Isabelle
  imports Complex_Main
begin

section \<open>Python values shared by the modules\<close>

text \<open>
  Exceptions are values. \<open>ReError\<close> is \<^verbatim>\<open>regex.error\<close>, raised when a pattern does not
  compile; the others are the Python built-ins of the same name. \<open>Unmodelled\<close> is not a
  Python exception: it marks a pattern that uses regular-expression syntax outside the
  fragment of the \<^verbatim>\<open>regex\<close> library embedded below, about which nothing is stated.
\<close>

datatype error = ReError | TypeError | KeyError string | ValueError | IndexError
  | ZeroDivisionError | MemoryError | Unmodelled

text \<open>\<^verbatim>\<open>str(n)\<close> for a Python int: decimal digits, with a leading minus sign.\<close>

fun str_nat :: "nat \<Rightarrow> string" where
  "str_nat n =
     (if n < 10 then [''0123456789'' ! n]
      else str_nat (n div 10) @ [''0123456789'' ! (n mod 10)])"

declare str_nat.simps [simp del]

definition str_int :: "int \<Rightarrow> string" where
  "str_int i = (if i < 0 then CHR ''-'' # str_nat (nat (- i)) else str_nat (nat i))"

text \<open>\<^verbatim>\<open>sep.join(xs)\<close> for a list of strings.\<close>

fun join :: "string \<Rightarrow> string list \<Rightarrow> string" where
  "join sep [] = []"
| "join sep [x] = x"
| "join sep (x # y # ys) = x @ sep @ join sep (y # ys)"

text \<open>\<^verbatim>\<open>xs[start:end]\<close> for \<open>0 \<le> start\<close> and \<open>0 \<le> end\<close>: Python clamps both to the length.\<close>

definition slice :: "'a list \<Rightarrow> nat \<Rightarrow> nat \<Rightarrow> 'a list" where
  "slice xs start end = drop start (take end xs)"

section \<open>The fragment of the regex library used by the triggers\<close>

text \<open>
  \<^verbatim>\<open>triggers.py\<close> imports the third-party \<^verbatim>\<open>regex\<close> module and calls \<^verbatim>\<open>re.search\<close> on a
  pattern text. The syntax embedded here has literal characters, \<^verbatim>\<open>.\<close> (any character but
  a line feed), the anchors \<^verbatim>\<open>^\<close> and \<^verbatim>\<open>$\<close>, groups \<^verbatim>\<open>( )\<close>, alternation \<^verbatim>\<open>|\<close> and the
  greedy quantifiers \<^verbatim>\<open>*\<close>, \<^verbatim>\<open>+\<close> and \<^verbatim>\<open>?\<close>. Outside it, and answered with \<open>Unmodelled\<close>,
  are a pattern text that contains one of the characters \<^verbatim>\<open>\ [ ] { }\<close>, an opening
  parenthesis followed by \<^verbatim>\<open>?\<close> or \<^verbatim>\<open>*\<close> (the extensions and the backtracking verbs of
  the library), a quantifier followed by \<^verbatim>\<open>?\<close> or \<^verbatim>\<open>+\<close> (lazy and possessive
  repetition), \<^verbatim>\<open>*\<close> or \<^verbatim>\<open>+\<close> on an item that can match the empty text, and \<^verbatim>\<open>?\<close> on an
  anchor. A symbol of the stream is a string, and a character is a \<open>char\<close>.
\<close>

datatype regex = Empty | Lit char | Dot | Bol | Eol
  | Seq regex regex | Alt regex regex | Star regex

text \<open>Whether an item can match the empty text.\<close>

fun nullable :: "regex \<Rightarrow> bool" where
  "nullable Empty = True"
| "nullable (Lit c) = False"
| "nullable Dot = False"
| "nullable Bol = True"
| "nullable Eol = True"
| "nullable (Seq a b) = (nullable a \<and> nullable b)"
| "nullable (Alt a b) = (nullable a \<or> nullable b)"
| "nullable (Star a) = True"

text \<open>
  The pattern text is read left to right with a stack of open groups. A frame holds the
  finished branches of its group (latest first), the items of the branch being read
  (latest first) and whether the latest item is already quantified.
\<close>

type_synonym frame = "regex list \<times> regex list \<times> bool"

primrec seq_of_rev :: "regex list \<Rightarrow> regex" where
  "seq_of_rev [] = Empty"
| "seq_of_rev (r # rs) = Seq (seq_of_rev rs) r"

primrec alt_of_rev :: "regex list \<Rightarrow> regex \<Rightarrow> regex" where
  "alt_of_rev [] cur = cur"
| "alt_of_rev (b # bs) cur = Alt (alt_of_rev bs b) cur"

definition close_frame :: "frame \<Rightarrow> regex" where
  "close_frame f = (case f of (alts, cur, q) \<Rightarrow> alt_of_rev alts (seq_of_rev cur))"

definition push_item :: "regex \<Rightarrow> frame \<Rightarrow> frame" where
  "push_item r f = (case f of (alts, cur, q) \<Rightarrow> (alts, r # cur, False))"

definition unmodelled_chars :: "char list" where
  "unmodelled_chars = CHR 0x5C # ''[]{}''"

text \<open>An opening parenthesis followed by \<^verbatim>\<open>?\<close> or \<^verbatim>\<open>*\<close> somewhere in the text.\<close>

fun has_extension :: "string \<Rightarrow> bool" where
  "has_extension (a # b # cs) =
     (if a = CHR ''('' \<and> (b = CHR ''?'' \<or> b = CHR ''*'') then True
      else has_extension (b # cs))"
| "has_extension cs = False"

text \<open>
  A quantifier read after the items \<open>cur\<close> of a branch. The library raises
  \<^verbatim>\<open>regex.error\<close> when nothing stands before it in its branch ("nothing to repeat") and
  for a \<^verbatim>\<open>*\<close> straight after a quantifier ("multiple repeat"). \<^verbatim>\<open>r+\<close> is \<open>r\<close> followed by
  \<^verbatim>\<open>r*\<close>, and \<^verbatim>\<open>r?\<close> is \<open>r\<close> or nothing, \<open>r\<close> first.
\<close>

definition quantify :: "char \<Rightarrow> regex list \<Rightarrow> bool \<Rightarrow> error + regex list" where
  "quantify c cur q =
     (case cur of
        [] \<Rightarrow> Inl ReError
      | r # rs \<Rightarrow>
          if q then (if c = CHR ''*'' then Inl ReError else Inl Unmodelled)
          else if c = CHR ''*'' then
            (if nullable r then Inl Unmodelled else Inr (Star r # rs))
          else if c = CHR ''+'' then
            (if nullable r then Inl Unmodelled else Inr (Seq r (Star r) # rs))
          else if r = Bol then Inl Unmodelled
          else if r = Eol then Inl Unmodelled
          else Inr (Alt r Empty # rs))"

text \<open>
  One character of the pattern. A closing parenthesis with no open group is
  \<^verbatim>\<open>regex.error\<close>.
\<close>

fun parse_char :: "char \<Rightarrow> frame list \<Rightarrow> error + frame list" where
  "parse_char c [] = Inl ReError"
| "parse_char c ((alts, cur, q) # st) =
     (if c = CHR ''('' then Inr (([], [], False) # (alts, cur, q) # st)
      else if c = CHR '')'' then
        (case st of
           [] \<Rightarrow> Inl ReError
         | g # st' \<Rightarrow> Inr (push_item (close_frame (alts, cur, q)) g # st'))
      else if c = CHR ''|'' then Inr ((seq_of_rev cur # alts, [], False) # st)
      else if c = CHR ''*'' \<or> c = CHR ''+'' \<or> c = CHR ''?'' then
        (case quantify c cur q of
           Inl e \<Rightarrow> Inl e
         | Inr cur' \<Rightarrow> Inr ((alts, cur', True) # st))
      else if c = CHR ''.'' then Inr (push_item Dot (alts, cur, q) # st)
      else if c = CHR ''^'' then Inr (push_item Bol (alts, cur, q) # st)
      else if c = CHR ''$'' then Inr (push_item Eol (alts, cur, q) # st)
      else Inr (push_item (Lit c) (alts, cur, q) # st))"

fun parse_chars :: "string \<Rightarrow> frame list \<Rightarrow> error + frame list" where
  "parse_chars [] st = Inr st"
| "parse_chars (c # cs) st =
     (case parse_char c st of Inl e \<Rightarrow> Inl e | Inr st' \<Rightarrow> parse_chars cs st')"

text \<open>Compiling a pattern; a group still open at the end is \<^verbatim>\<open>regex.error\<close> ("missing )").\<close>

definition re_compile :: "string \<Rightarrow> error + regex" where
  "re_compile p =
     (if list_ex (\<lambda>c. c \<in> set unmodelled_chars) p then Inl Unmodelled
      else if has_extension p then Inl Unmodelled
      else case parse_chars p [([], [], False)] of
        Inl e \<Rightarrow> Inl e
      | Inr [] \<Rightarrow> Inl ReError
      | Inr [f] \<Rightarrow> Inr (close_frame f)
      | Inr (f # g # st) \<Rightarrow> Inl ReError)"

text \<open>
  The backtracking matcher: \<open>ms r n s\<close> lists what is left of \<open>s\<close> after each way of
  matching \<open>r\<close> at its start, in the order the library tries them (the first branch of
  an alternation first, as many iterations of a star as possible first). \<open>n\<close> is the
  length of the whole searched text, of which \<open>s\<close> is the rest: \<^verbatim>\<open>^\<close> matches where
  nothing is consumed yet, and \<^verbatim>\<open>$\<close> at the end or before a line feed that ends the
  text. A star is only built on an item that consumes something.
\<close>

fun ms :: "regex \<Rightarrow> nat \<Rightarrow> string \<Rightarrow> string list" where
  "ms Empty n s = [s]"
| "ms (Lit c) n s = (case s of [] \<Rightarrow> [] | x # xs \<Rightarrow> if x = c then [xs] else [])"
| "ms Dot n s = (case s of [] \<Rightarrow> [] | x # xs \<Rightarrow> if x = CHR 0x0A then [] else [xs])"
| "ms Bol n s = (if length s = n then [s] else [])"
| "ms Eol n s = (if s = [] then [s] else if s = [CHR 0x0A] then [s] else [])"
| "ms (Seq a b) n s = concat (map (ms b n) (ms a n s))"
| "ms (Alt a b) n s = ms a n s @ ms b n s"
| "ms (Star a) n s =
     concat (map (\<lambda>t. if length t < length s then ms (Star a) n t else []) (ms a n s)) @ [s]"

declare ms.simps(8) [simp del]

text \<open>A match object: \<^verbatim>\<open>m.start()\<close> and \<^verbatim>\<open>m.end()\<close>, offsets into the searched string.\<close>

record match =
  m_start :: nat
  m_end :: nat

text \<open>
  \<^verbatim>\<open>re.search\<close> tries each start offset from the left and returns the first match found
  there; \<open>s\<close> is the text from offset \<open>i\<close> on.
\<close>

fun search_from :: "regex \<Rightarrow> nat \<Rightarrow> string \<Rightarrow> nat \<Rightarrow> match option" where
  "search_from r n [] i =
     (case ms r n [] of
        t # ts \<Rightarrow> Some \<lparr>m_start = i, m_end = i\<rparr>
      | [] \<Rightarrow> None)"
| "search_from r n (c # s) i =
     (case ms r n (c # s) of
        t # ts \<Rightarrow> Some \<lparr>m_start = i, m_end = i + (length (c # s) - length t)\<rparr>
      | [] \<Rightarrow> search_from r n s (Suc i))"

definition re_search :: "string \<Rightarrow> string \<Rightarrow> error + match option" where
  "re_search p s =
     (case re_compile p of
        Inl e \<Rightarrow> Inl e
      | Inr r \<Rightarrow> Inr (search_from r (length s) s 0))"

section \<open>Triggers and actions (realtime_triggers)\<close>

text \<open>
  A callback is one of the functions of \<^verbatim>\<open>actions.py\<close>; \<open>AVAILABLE_ACTIONS\<close> is the
  dictionary of that module, from the name to the function.
\<close>

datatype action = PrintToScreen

definition AVAILABLE_ACTIONS :: "(string \<times> action) list" where
  "AVAILABLE_ACTIONS = [(''print_to_screen'', PrintToScreen)]"

definition TRIGGER_TYPES :: "string list" where
  "TRIGGER_TYPES = [''transition'']"

record TransitionTrigger =
  callback :: action
  from_seg :: string
  to_seg :: string

definition NOT_TRIGGERED :: int where
  "NOT_TRIGGERED = - 1"

text \<open>\<^verbatim>\<open>TransitionTrigger.__str__\<close>.\<close>

definition trigger_str :: "TransitionTrigger \<Rightarrow> string" where
  "trigger_str self = ''Trigger: '' @ from_seg self @ '' -> '' @ to_seg self"

text \<open>
  \<^verbatim>\<open>print_to_screen\<close> only prints; the model returns the text handed to \<^verbatim>\<open>print\<close>. The
  f-string spans three source lines joined by backslashes, so the text holds a line
  feed and a tab followed by the eight spaces of the next source line, twice.
\<close>

definition print_to_screen :: "TransitionTrigger \<Rightarrow> string list \<Rightarrow> match \<Rightarrow> string" where
  "print_to_screen trig cur_stream m =
     (let start = max 0 (int (m_start m) - 10);
          end = min (int (length cur_stream)) (int (m_end m) + 10)
      in trigger_str trig @ '' was triggered! State:'' @ [CHR 0x0A, CHR 0x09]
         @ ''        ...'' @ join ''-'' (slice cur_stream (nat start) (nat end))
         @ [CHR 0x0A, CHR 0x09]
         @ ''        ('' @ str_int (int (length cur_stream) - 10)
         @ '' segments not printed).'')"

fun call_action :: "action \<Rightarrow> TransitionTrigger \<Rightarrow> string list \<Rightarrow> match \<Rightarrow> string" where
  "call_action PrintToScreen = print_to_screen"

text \<open>
  \<^verbatim>\<open>TransitionTrigger.check_trigger\<close>: the result is the list of texts printed by the
  callback (none or one) and the value returned; an exception of \<^verbatim>\<open>re.search\<close> leaves
  the method as it is.
\<close>

definition check_trigger :: "TransitionTrigger \<Rightarrow> string list \<Rightarrow> error + (string list \<times> int)" where
  "check_trigger self cur_stream =
     (let stream_regex = ''.*'' @ from_seg self @ to_seg self @ ''.*''
      in case re_search stream_regex (concat cur_stream) of
           Inl e \<Rightarrow> Inl e
         | Inr (Some m) \<Rightarrow>
             Inr ([call_action (callback self) self cur_stream m], int (m_end m))
         | Inr None \<Rightarrow> Inr ([], NOT_TRIGGERED))"

section \<open>The trigger configuration loader (converters)\<close>

text \<open>
  \<^verbatim>\<open>json_path_to_trigger_list\<close> opens and parses the file with the standard library and
  then works on the parsed document, which is where the model starts. The document is
  typed as the format has it: a dictionary whose \<^verbatim>\<open>"triggers"\<close> value is a list of
  dictionaries from field names to strings. A dictionary is an association list read
  with \<open>map_of\<close>.
\<close>

type_synonym entry = "(string \<times> string) list"

type_synonym config = "(string \<times> entry list) list"

text \<open>
  The first loop. \<open>None\<close> means that it ran to its end; every \<^verbatim>\<open>raise\<close> of the source is
  a \<open>TypeError\<close>. In the condition \<^verbatim>\<open>not "to" in trig and len(trig["to"]) == 1\<close> the
  subscript is evaluated only when the key is absent, and then raises \<open>KeyError\<close>.
\<close>

fun check_entries :: "entry list \<Rightarrow> error option" where
  "check_entries [] = None"
| "check_entries (trig # rest) =
     (case map_of trig ''type'' of
        None \<Rightarrow> Some TypeError
      | Some ty \<Rightarrow>
          if ty \<notin> set TRIGGER_TYPES then Some TypeError
          else (case map_of trig ''callback'' of
             None \<Rightarrow> Some TypeError
           | Some cb \<Rightarrow>
               if map_of AVAILABLE_ACTIONS cb = None then Some TypeError
               else if ty = ''Transition'' then
                 (if map_of trig ''from'' = None then Some TypeError
                  else if map_of trig ''to'' = None then Some (KeyError ''to'')
                  else check_entries rest)
               else check_entries rest))"

text \<open>
  The second loop, with \<open>trig_list\<close> passed along. A subscript of a missing key raises
  \<open>KeyError\<close>; the arguments of the constructor are evaluated left to right. The result
  is the list as it stands when the loop ends or raises, and the exception if any.
\<close>

fun build_triggers ::
  "entry list \<Rightarrow> TransitionTrigger list \<Rightarrow> TransitionTrigger list \<times> error option" where
  "build_triggers [] trig_list = (trig_list, None)"
| "build_triggers (trigger_json # rest) trig_list =
     (case map_of trigger_json ''type'' of
        None \<Rightarrow> (trig_list, Some (KeyError ''type''))
      | Some ty \<Rightarrow>
          if ty = ''transition'' then
            (case map_of trigger_json ''callback'' of
               None \<Rightarrow> (trig_list, Some (KeyError ''callback''))
             | Some cb \<Rightarrow>
                 (case map_of AVAILABLE_ACTIONS cb of
                    None \<Rightarrow> (trig_list, Some (KeyError cb))
                  | Some act \<Rightarrow>
                      (case map_of trigger_json ''from'' of
                         None \<Rightarrow> (trig_list, Some (KeyError ''from''))
                       | Some f \<Rightarrow>
                           (case map_of trigger_json ''to'' of
                              None \<Rightarrow> (trig_list, Some (KeyError ''to''))
                            | Some t \<Rightarrow>
                                build_triggers rest
                                  (trig_list @ [\<lparr>callback = act, from_seg = f, to_seg = t\<rparr>])))))
          else build_triggers rest trig_list)"

text \<open>
  The loader: the \<open>TransitionTrigger\<close> objects constructed, and the exception raised
  (\<open>None\<close> when the list is returned).
\<close>

definition json_path_to_trigger_list ::
  "config \<Rightarrow> TransitionTrigger list \<times> error option" where
  "json_path_to_trigger_list triggers_json =
     (case map_of triggers_json ''triggers'' of
        None \<Rightarrow> ([], Some TypeError)
      | Some entries \<Rightarrow>
          (case check_entries entries of
             Some e \<Rightarrow> ([], Some e)
           | None \<Rightarrow> build_triggers entries []))"

text \<open>
  A valid configuration, in the words of the specification: there is a \<^verbatim>\<open>"triggers"\<close>
  field, and every entry has a recognised type (only \<^verbatim>\<open>"transition"\<close>), a callback of the
  registry, a \<^verbatim>\<open>"from"\<close> field and a non-empty \<^verbatim>\<open>"to"\<close> field.
\<close>

definition valid_entry :: "entry \<Rightarrow> bool" where
  "valid_entry e =
     (map_of e ''type'' = Some ''transition''
      \<and> (case map_of e ''callback'' of
            None \<Rightarrow> False
          | Some cb \<Rightarrow> map_of AVAILABLE_ACTIONS cb \<noteq> None)
      \<and> map_of e ''from'' \<noteq> None
      \<and> (case map_of e ''to'' of None \<Rightarrow> False | Some t \<Rightarrow> t \<noteq> []))"

definition valid_config :: "config \<Rightarrow> bool" where
  "valid_config cfg =
     (case map_of cfg ''triggers'' of None \<Rightarrow> False | Some es \<Rightarrow> list_all valid_entry es)"

text \<open>
  An entry without a type, with a type that is not recognised, without a callback, or
  with a callback that the registry does not have.
\<close>

definition unknown_type_or_callback :: "entry \<Rightarrow> bool" where
  "unknown_type_or_callback e =
     (case map_of e ''type'' of
        None \<Rightarrow> True
      | Some ty \<Rightarrow>
          if ty \<in> set TRIGGER_TYPES then
            (case map_of e ''callback'' of
               None \<Rightarrow> True
             | Some cb \<Rightarrow> map_of AVAILABLE_ACTIONS cb = None)
          else True)"

text \<open>The entry a trigger was constructed from: its three bindings.\<close>

definition bound_to :: "TransitionTrigger \<Rightarrow> entry \<Rightarrow> bool" where
  "bound_to t e =
     (map_of e ''from'' = Some (from_seg t) \<and> map_of e ''to'' = Some (to_seg t)
      \<and> (case map_of e ''callback'' of
            None \<Rightarrow> False
          | Some cb \<Rightarrow> map_of AVAILABLE_ACTIONS cb = Some (callback t)))"

section \<open>The trigger engine\<close>





section \<open>The windowing transforms (transforms/functional)\<close>

text \<open>
  The elements of an array are kept abstract: the transforms only move them, subtract
  them and divide them, so nothing here depends on how floating-point arithmetic
  rounds. \<^verbatim>\<open>xs[mask]\<close> with a boolean mask keeps the positions where the mask is true and
  raises \<open>IndexError\<close> when the mask has another length than \<open>xs\<close>.
\<close>

definition bool_index :: "'a list \<Rightarrow> bool list \<Rightarrow> error + 'a list" where
  "bool_index xs bs =
     (if length bs = length xs then Inr (map fst (filter snd (zip xs bs)))
      else Inl IndexError)"

text \<open>
  \<^verbatim>\<open>xs[mask] = vs\<close>: the values replace, in order, the positions where the mask is
  true. It is used after \<open>bool_index\<close> with the same mask, so the lengths agree.
\<close>

fun bool_assign :: "'a list \<Rightarrow> bool list \<Rightarrow> 'a list \<Rightarrow> 'a list" where
  "bool_assign (x # xs) (True # bs) (v # vs) = v # bool_assign xs bs vs"
| "bool_assign (x # xs) (False # bs) vs = x # bool_assign xs bs vs"
| "bool_assign xs bs vs = xs"

subsection \<open>standardize_spect\<close>

text \<open>
  The spectrogram is a two-dimensional array given by its rows, one per frequency bin
  (the docstring: shape (frequencies, time bins)); the three vectors are lists.
  \<^verbatim>\<open>spect - mean_freqs[:, np.newaxis]\<close> subtracts a column; numpy broadcasts the row
  axis when one of the two has a single row and raises \<open>ValueError\<close> when the numbers of
  rows differ otherwise.
\<close>

definition subtract_column :: "'a::minus list list \<Rightarrow> 'a list \<Rightarrow> error + 'a list list" where
  "subtract_column spect mean_freqs =
     (if length mean_freqs = length spect
        then Inr (map (\<lambda>(row, m). map (\<lambda>x. x - m) row) (zip spect mean_freqs))
      else if length mean_freqs = 1
        then Inr (map (\<lambda>row. map (\<lambda>x. x - hd mean_freqs) row) spect)
      else if length spect = 1
        then Inr (map (\<lambda>m. map (\<lambda>x. x - m) (hd spect)) mean_freqs)
      else Inl ValueError)"

text \<open>
  The second statement evaluates \<^verbatim>\<open>tfm[non_zero_std, :]\<close>, then
  \<^verbatim>\<open>std_freqs[non_zero_std, np.newaxis]\<close>, divides row by row and stores the rows back.
\<close>

definition standardize_spect ::
  "'a::{minus,inverse} list list \<Rightarrow> 'a list \<Rightarrow> 'a list \<Rightarrow> bool list \<Rightarrow> error + 'a list list" where
  "standardize_spect spect mean_freqs std_freqs non_zero_std =
     (case subtract_column spect mean_freqs of
        Inl e \<Rightarrow> Inl e
      | Inr tfm \<Rightarrow>
          (case bool_index tfm non_zero_std of
             Inl e \<Rightarrow> Inl e
           | Inr selected \<Rightarrow>
               (case bool_index std_freqs non_zero_std of
                  Inl e \<Rightarrow> Inl e
                | Inr stds \<Rightarrow>
                    Inr (bool_assign tfm non_zero_std
                          (map (\<lambda>(row, s). map (\<lambda>x. x / s) row) (zip selected stds))))))"

text \<open>
  The result in the words of the specification: every band has its mean subtracted, and
  the bands where the mask is true are divided by their standard deviation as well.
\<close>

definition spec_standardize ::
  "'a::{minus,inverse} list list \<Rightarrow> 'a list \<Rightarrow> 'a list \<Rightarrow> bool list \<Rightarrow> 'a list list" where
  "spec_standardize spect meanPerBand stdPerBand nonZeroStdMask =
     map (\<lambda>(band, m, s, b). map (\<lambda>x. if b then (x - m) / s else x - m) band)
       (zip spect (zip meanPerBand (zip stdPerBand nonZeroStdMask)))"

subsection \<open>pad_to_window and reshape_to_window\<close>



text \<open>The rows of a two-dimensional array of the given height and width.\<close>

fun rows_of :: "nat \<Rightarrow> nat \<Rightarrow> 'a list \<Rightarrow> 'a list list" where
  "rows_of 0 width xs = []"
| "rows_of (Suc height) width xs = take width xs # rows_of height width (drop width xs)"













section \<open>Notions used in the statements about patterns\<close>



section \<open>Properties of the pattern matcher\<close>













section \<open>Claims about the triggers\<close>

text \<open>
  Claim C1. For a trigger from \<^verbatim>\<open>"A"\<close> to \<^verbatim>\<open>"B"\<close>, the specification reports a match
  ending at index 2 on the stream A, B, C and no match on the stream A, C, B. On the
  first stream \<open>check_trigger\<close> returns 3: the pattern searched is \<^verbatim>\<open>.*AB.*\<close>, whose
  match runs to the end of the joined stream. On the second it returns \<open>NOT_TRIGGERED\<close>.
\<close>

theorem check_trigger_AB_returns_length:
  "check_trigger \<lparr>callback = PrintToScreen, from_seg = ''A'', to_seg = ''B''\<rparr> [''A'', ''B'', ''C'']
     = Inr ([print_to_screen \<lparr>callback = PrintToScreen, from_seg = ''A'', to_seg = ''B''\<rparr>
               [''A'', ''B'', ''C''] \<lparr>m_start = 0, m_end = 3\<rparr>], 3)
   \<and> check_trigger \<lparr>callback = PrintToScreen, from_seg = ''A'', to_seg = ''B''\<rparr> [''A'', ''C'', ''B'']
     = Inr ([], NOT_TRIGGERED)"
  by code_simp




text \<open>
  Claim C5. \<open>print_to_screen\<close> shows the symbols from 10 positions before the start of
  the match to 10 positions after its end, clamped to the stream, and its notice gives
  the number of symbols outside that window. On the stream A, B, C with the match from
  0 to 3 the window is the whole stream, so no symbol is left out, and the notice says
  \<^verbatim>\<open>-7 segments not printed\<close>: the number printed is the length of the stream minus 10.
\<close>

theorem print_to_screen_notice_count:
  "print_to_screen \<lparr>callback = PrintToScreen, from_seg = ''A'', to_seg = ''B''\<rparr>
     [''A'', ''B'', ''C''] \<lparr>m_start = 0, m_end = 3\<rparr>
     = ''Trigger: A -> B was triggered! State:'' @ [CHR 0x0A, CHR 0x09]
       @ ''        ...A-B-C'' @ [CHR 0x0A, CHR 0x09]
       @ ''        (-7 segments not printed).''
   \<and> slice [''A'', ''B'', ''C''] (nat (max 0 (int 0 - 10))) (nat (min (int 3) (int 3 + 10)))
     = [''A'', ''B'', ''C'']"
  by code_simp



section \<open>Claims about the loader\<close>

text \<open>
  A configuration without a \<^verbatim>\<open>"triggers"\<close> field, or with an entry whose type or callback
  is missing or unknown, is rejected by the first loop with \<open>TypeError\<close>, and no
  trigger is constructed.
\<close>

lemma check_entries_rejects:
  "list_ex unknown_type_or_callback es \<Longrightarrow> check_entries es = Some TypeError"
proof (induction es)
  case Nil
  then show ?case by simp
next
  case (Cons e es)
  show ?case
  proof (cases "unknown_type_or_callback e")
    case True
    then show ?thesis
      by (auto simp: unknown_type_or_callback_def split: option.splits if_splits)
  next
    case False
    with Cons have rest: "check_entries es = Some TypeError" by simp
    from False obtain cb where "map_of e ''type'' = Some ''transition''"
      and "map_of e ''callback'' = Some cb" and "map_of AVAILABLE_ACTIONS cb \<noteq> None"
      by (auto simp: unknown_type_or_callback_def TRIGGER_TYPES_def
          split: option.splits if_splits)
    with rest show ?thesis by (simp add: TRIGGER_TYPES_def)
  qed
qed

lemma loader_rejects_before_constructing:
  "map_of cfg ''triggers'' = None \<Longrightarrow> json_path_to_trigger_list cfg = ([], Some TypeError)"
  "map_of cfg ''triggers'' = Some es \<Longrightarrow> list_ex unknown_type_or_callback es \<Longrightarrow>
   json_path_to_trigger_list cfg = ([], Some TypeError)"
  by (simp_all add: json_path_to_trigger_list_def check_entries_rejects)

text \<open>
  Claim C2. A configuration with a \<^verbatim>\<open>"transition"\<close> entry that lacks its \<^verbatim>\<open>"from"\<close> field
  is to be rejected by the validation, before any trigger is constructed. The first
  loop compares the type with \<^verbatim>\<open>"Transition"\<close>, which no recognised type equals, so the
  entry passes; the second loop constructs the trigger of the entry before it and then
  raises \<open>KeyError\<close>.
\<close>

theorem loader_missing_from_raises_KeyError:
  "json_path_to_trigger_list
     [(''triggers'',
       [[(''type'', ''transition''), (''callback'', ''print_to_screen''),
         (''from'', ''A''), (''to'', ''B'')],
        [(''type'', ''transition''), (''callback'', ''print_to_screen''), (''to'', ''B'')]])]
   = ([\<lparr>callback = PrintToScreen, from_seg = ''A'', to_seg = ''B''\<rparr>], Some (KeyError ''from''))"
  by code_simp

text \<open>
  Claim C3. A \<^verbatim>\<open>"transition"\<close> entry whose \<^verbatim>\<open>"to"\<close> field is present but empty is to be
  rejected when the configuration is loaded. The loader returns a trigger with an empty
  \<open>to_seg\<close> and raises nothing.
\<close>

theorem loader_accepts_empty_to:
  "json_path_to_trigger_list
     [(''triggers'',
       [[(''type'', ''transition''), (''callback'', ''print_to_screen''),
         (''from'', ''A''), (''to'', '''')]])]
   = ([\<lparr>callback = PrintToScreen, from_seg = ''A'', to_seg = ''''\<rparr>], None)"
  by code_simp

lemma check_entries_valid: "list_all valid_entry es \<Longrightarrow> check_entries es = None"
proof (induction es)
  case Nil
  then show ?case by simp
next
  case (Cons e es)
  then have "valid_entry e" and "check_entries es = None" by simp_all
  then show ?case
    by (auto simp: valid_entry_def TRIGGER_TYPES_def split: option.splits)
qed

lemma build_triggers_valid:
  "list_all valid_entry es \<Longrightarrow>
   \<exists>l. build_triggers es acc = (acc @ l, None) \<and> list_all2 bound_to l es"
proof (induction es arbitrary: acc)
  case Nil
  then show ?case by simp
next
  case (Cons e es)
  then have v: "valid_entry e" and vs: "list_all valid_entry es" by simp_all
  from v obtain cb act f t where e: "map_of e ''type'' = Some ''transition''"
    "map_of e ''callback'' = Some cb" "map_of AVAILABLE_ACTIONS cb = Some act"
    "map_of e ''from'' = Some f" "map_of e ''to'' = Some t"
    by (auto simp: valid_entry_def split: option.splits)
  let ?t = "\<lparr>callback = act, from_seg = f, to_seg = t\<rparr>"
  from Cons.IH [OF vs, of "acc @ [?t]"] obtain l
    where l: "build_triggers es (acc @ [?t]) = ((acc @ [?t]) @ l, None)"
      and b: "list_all2 bound_to l es" by blast
  from e have "bound_to ?t e" by (simp add: bound_to_def)
  with b have "list_all2 bound_to (?t # l) (e # es)" by simp
  moreover from e l have "build_triggers (e # es) acc = (acc @ (?t # l), None)" by simp
  ultimately show ?case by blast
qed

lemma valid_entries_all_transition:
  "list_all valid_entry es \<Longrightarrow> filter (\<lambda>e. map_of e ''type'' = Some ''transition'') es = es"
  by (induction es) (auto simp: valid_entry_def)

text \<open>
  Claim C6. For a valid configuration the loader returns a list with one trigger per
  \<^verbatim>\<open>"transition"\<close> entry, in the order of the entries, each bound to the \<^verbatim>\<open>"from"\<close> and
  \<^verbatim>\<open>"to"\<close> patterns of its entry and to the action that \<open>AVAILABLE_ACTIONS\<close> gives for
  its callback name.
\<close>

theorem loader_valid_config:
  assumes "valid_config cfg" and "map_of cfg ''triggers'' = Some es"
  shows "snd (json_path_to_trigger_list cfg) = None
         \<and> length (fst (json_path_to_trigger_list cfg))
           = length (filter (\<lambda>e. map_of e ''type'' = Some ''transition'') es)
         \<and> list_all2 bound_to (fst (json_path_to_trigger_list cfg))
             (filter (\<lambda>e. map_of e ''type'' = Some ''transition'') es)"
proof -
  from assms have v: "list_all valid_entry es" by (simp add: valid_config_def)
  from build_triggers_valid [OF v, of "[]"] obtain l
    where l: "build_triggers es [] = (l, None)" and b: "list_all2 bound_to l es" by auto
  from assms(2) check_entries_valid [OF v] l
  have "json_path_to_trigger_list cfg = (l, None)"
    by (simp add: json_path_to_trigger_list_def)
  with b valid_entries_all_transition [OF v] show ?thesis
    by (simp add: list_all2_lengthD)
qed

text \<open>A configuration with two entries.\<close>

theorem loader_valid_config_witness:
  "valid_config
     [(''triggers'',
       [[(''type'', ''transition''), (''callback'', ''print_to_screen''),
         (''from'', ''A''), (''to'', ''B'')],
        [(''type'', ''transition''), (''callback'', ''print_to_screen''),
         (''from'', ''C''), (''to'', ''D'')]])]
   \<and> json_path_to_trigger_list
     [(''triggers'',
       [[(''type'', ''transition''), (''callback'', ''print_to_screen''),
         (''from'', ''A''), (''to'', ''B'')],
        [(''type'', ''transition''), (''callback'', ''print_to_screen''),
         (''from'', ''C''), (''to'', ''D'')]])]
     = ([\<lparr>callback = PrintToScreen, from_seg = ''A'', to_seg = ''B''\<rparr>,
         \<lparr>callback = PrintToScreen, from_seg = ''C'', to_seg = ''D''\<rparr>], None)"
proof -
  let ?e1 = "[(''type'', ''transition''), (''callback'', ''print_to_screen''),
         (''from'', ''A''), (''to'', ''B'')]"
  let ?e2 = "[(''type'', ''transition''), (''callback'', ''print_to_screen''),
         (''from'', ''C''), (''to'', ''D'')]"
  let ?cfg = "[(''triggers'', [?e1, ?e2])]"
  have v: "valid_config ?cfg" by code_simp
  have m: "map_of ?cfg ''triggers'' = Some [?e1, ?e2]" by simp
  have r: "json_path_to_trigger_list ?cfg
     = ([\<lparr>callback = PrintToScreen, from_seg = ''A'', to_seg = ''B''\<rparr>,
         \<lparr>callback = PrintToScreen, from_seg = ''C'', to_seg = ''D''\<rparr>], None)"
    by code_simp
  from loader_valid_config [OF v m] v r show ?thesis by simp
qed

section \<open>Claims about the windowing transforms\<close>

lemma bool_assign_select:
  "length xs = length ss \<Longrightarrow> length ss = length bs \<Longrightarrow>
   bool_assign xs bs
     (map (\<lambda>(row, s). f row s)
        (zip (map fst (filter snd (zip xs bs))) (map fst (filter snd (zip ss bs)))))
   = map (\<lambda>(row, s, b). if b then f row s else row) (zip xs (zip ss bs))"
proof (induction xs ss bs rule: list_induct3)
  case Nil
  then show ?case by simp
next
  case (Cons x xs s ss b bs)
  then show ?case by (cases b) simp_all
qed

text \<open>
  Claim C7. When the mean, the standard deviation and the mask have one entry per band,
  \<open>standardize_spect\<close> returns an array of the shape of its input in which every
  band has its mean subtracted and, where the mask is true and only there, is divided by
  its standard deviation.
\<close>

theorem standardize_spect_bands:
  assumes "length mean_freqs = length spect"
    and "length std_freqs = length spect"
    and "length non_zero_std = length spect"
  shows "standardize_spect spect mean_freqs std_freqs non_zero_std
           = Inr (spec_standardize spect mean_freqs std_freqs non_zero_std)
         \<and> map length (spec_standardize spect mean_freqs std_freqs non_zero_std)
           = map length spect"
proof -
  let ?tfm = "map (\<lambda>(row, m). map (\<lambda>x. x - m) row) (zip spect mean_freqs)"
  have sub: "subtract_column spect mean_freqs = Inr ?tfm"
    using assms(1) by (simp add: subtract_column_def)
  have len: "length ?tfm = length std_freqs" "length std_freqs = length non_zero_std"
    using assms by simp_all
  have sel: "bool_index ?tfm non_zero_std = Inr (map fst (filter snd (zip ?tfm non_zero_std)))"
    using assms by (simp add: bool_index_def)
  have stds: "bool_index std_freqs non_zero_std
              = Inr (map fst (filter snd (zip std_freqs non_zero_std)))"
    using assms by (simp add: bool_index_def)
  have "standardize_spect spect mean_freqs std_freqs non_zero_std
        = Inr (map (\<lambda>(row, s, b). if b then map (\<lambda>x. x / s) row else row)
                 (zip ?tfm (zip std_freqs non_zero_std)))"
    using bool_assign_select [OF len, of "\<lambda>row s. map (\<lambda>x. x / s) row"]
    by (simp add: standardize_spect_def sub sel stds)
  also have "map (\<lambda>(row, s, b). if b then map (\<lambda>x. x / s) row else row)
                 (zip ?tfm (zip std_freqs non_zero_std))
             = spec_standardize spect mean_freqs std_freqs non_zero_std"
    using assms by (auto simp: spec_standardize_def list_eq_iff_nth_eq)
  finally have "standardize_spect spect mean_freqs std_freqs non_zero_std
           = Inr (spec_standardize spect mean_freqs std_freqs non_zero_std)" .
  moreover have "map length (spec_standardize spect mean_freqs std_freqs non_zero_std)
           = map length spect"
    using assms by (auto simp: spec_standardize_def list_eq_iff_nth_eq)
  ultimately show ?thesis by simp
qed

text \<open>
  The example of the specification, and a second band of standard deviation zero that
  the mask leaves undivided.
\<close>

theorem standardize_spect_bands_witness:
  "standardize_spect [[2, 4]] [3] [1] [True] = Inr [[- 1, 1 :: real]]
   \<and> standardize_spect [[2, 4], [5, 5]] [3, 5] [1, 0] [True, False] = Inr [[- 1, 1], [0, 0 :: real]]"
  using standardize_spect_bands [of "[3::real]" "[[2, 4]]" "[1]" "[True]"]
    standardize_spect_bands [of "[3, 5::real]" "[[2, 4], [5, 5]]" "[1, 0]" "[True, False]"]
  by (simp add: spec_standardize_def)





lemma rows_of_concat:
  "\<forall>r \<in> set rows. length r = w \<Longrightarrow> rows_of (length rows) w (concat rows) = rows"
  by (induction rows) simp_all




















end
